theory Spec2Isabelle
  imports Main
begin

section \<open>The kube-bench scanner of starboard (pkg/kubebench/scanner.go)\<close>

text \<open>
  The scanner builds the descriptor of a Kubernetes Job that runs kube-bench, has the
  job run to completion, reads the logs of the pod the job created, decodes them into
  a report and looks up the node the pod ran on. Everything it asks of the cluster
  goes through collaborators that are fields of the scanner (client set, pod manager,
  converter) or package functions (the runner). Here each collaborator is a function
  value whose result is what the call returned, and every call \<open>Scan\<close> makes is
  appended to a list of calls, in the order in which the calls are made.
\<close>

subsection \<open>Errors\<close>

text \<open>
  A Go \<open>error\<close> is either an error some collaborator produced, or
  \<open>fmt.Errorf(format, err)\<close> with a \<open>%w\<close> verb, which wraps \<open>err\<close>.
  A nil error is \<open>None\<close> of \<open>error option\<close>.
\<close>

datatype error = Err string | Errorf string error

subsection \<open>API objects\<close>

datatype RestartPolicy = RestartPolicyAlways | RestartPolicyOnFailure | RestartPolicyNever

datatype PullPolicy = PullAlways | PullNever | PullIfNotPresent

datatype TerminationMessagePolicy =
  TerminationMessageReadFile | TerminationMessageFallbackToLogsOnError

datatype DeletionPropagation =
  DeletePropagationOrphan | DeletePropagationBackground | DeletePropagationForeground

text \<open>
  Only the fields the scanner sets are kept; every other field of the Kubernetes
  structs has its zero value. A pointer field is an \<open>option\<close>. The int32 and int64
  fields hold \<open>int\<close>: the scanner stores constants in them and does no arithmetic.
\<close>

record HostPathVolumeSource =
  hp_Path :: string

record Volume =
  vol_Name :: string
  vol_HostPath :: "HostPathVolumeSource option"

record VolumeMount =
  vm_Name :: string
  vm_MountPath :: string
  vm_ReadOnly :: bool

record Container =
  c_Name :: string
  c_Image :: string
  c_ImagePullPolicy :: PullPolicy
  c_TerminationMessagePolicy :: TerminationMessagePolicy
  c_Command :: "string list"
  c_Args :: "string list"
  c_VolumeMounts :: "VolumeMount list"

record PodSpec =
  ps_RestartPolicy :: RestartPolicy
  ps_HostPID :: bool
  ps_Volumes :: "Volume list"
  ps_Containers :: "Container list"

record PodTemplateSpec =
  pt_Labels :: "string \<rightharpoonup> string"
  pt_Spec :: PodSpec

record JobSpec =
  js_BackoffLimit :: "int option"
  js_Completions :: "int option"
  js_ActiveDeadlineSeconds :: "int option"
  js_Template :: PodTemplateSpec

record Job =
  job_Name :: string
  job_Namespace :: string
  job_Labels :: "string \<rightharpoonup> string"
  job_Spec :: JobSpec

text \<open>Of a pod the scanner reads \<open>Spec.NodeName\<close> only.\<close>

record Pod =
  pod_Name :: string
  pod_NodeName :: string

subsection \<open>The scanner and its collaborators\<close>

text \<open>
  The types of the context (\<open>'c\<close>), of the log stream (\<open>'l\<close>), of the report
  (\<open>'r\<close>) and of a node (\<open>'n\<close>) are opaque to the scanner: it only passes their
  values on.

  \<open>GetPodByJob\<close> and \<open>GetPodLogs\<close> return a value or an error; \<open>Scan\<close> returns at
  once on the error and never looks at the value then. \<open>Convert\<close> and \<open>Nodes().Get\<close>
  return a pair, and \<open>Scan\<close> stores both components in its named results before it
  looks at the error, so both are kept.
\<close>

record ScannerOpts =
  ScanJobTimeout :: int

record ('c, 'l) PodManager =
  GetPodByJob :: "'c \<Rightarrow> Job \<Rightarrow> error + Pod"
  GetPodLogs :: "'c \<Rightarrow> Pod \<Rightarrow> string \<Rightarrow> error + 'l"

record ('c, 'n) Clientset =
  Nodes_Get :: "'c \<Rightarrow> string \<Rightarrow> 'n option \<times> error option"

record ('c, 'l, 'r, 'n) Scanner =
  opts :: ScannerOpts
  clientset :: "('c, 'n) Clientset"
  pods :: "('c, 'l) PodManager"
  converter :: "'l \<Rightarrow> 'r \<times> error option"

text \<open>
  The calls \<open>Scan\<close> makes on the cluster and on the log stream. The results of
  \<open>Jobs(ns).Delete\<close> and of \<open>Close\<close> are discarded by the source (\<open>_ =\<close>), so
  these two need no function value, only the call. Logging through klog is left out.
\<close>

datatype ('c, 'l) call =
    RunJob 'c Job
  | JobsDelete 'c string string DeletionPropagation
  | PodByJob 'c Job
  | PodLogs 'c Pod string
  | Convert 'l
  | NodesGet 'c string
  | CloseLogs 'l

fun is_JobsDelete :: "('c, 'l) call \<Rightarrow> bool" where
  "is_JobsDelete (JobsDelete _ _ _ _) = True"
| "is_JobsDelete _ = False"

fun is_Convert :: "('c, 'l) call \<Rightarrow> bool" where
  "is_Convert (Convert _) = True"
| "is_Convert _ = False"

fun is_CloseLogs :: "('c, 'l) call \<Rightarrow> bool" where
  "is_CloseLogs (CloseLogs _) = True"
| "is_CloseLogs _ = False"

subsection \<open>Constants\<close>

definition kubeBenchContainerName :: string where
  "kubeBenchContainerName = ''kube-bench''"

definition kubeBenchContainerImage :: string where
  "kubeBenchContainerImage = ''aquasec/kube-bench:latest''"

subsection \<open>The job descriptor\<close>

text \<open>
  Modelled from the spec: \<open>GetActiveDeadlineSeconds\<close> is a method of
  \<open>scanners.Base\<close>, which the scanner embeds and which is declared in package
  \<open>scanners\<close>, outside \<open>pkg/kubebench\<close>. The spec says of it: the deadline is in seconds, derived from the
  configured timeout; it equals the timeout when one is configured (greater than
  zero) and is absent otherwise.
\<close>

definition GetActiveDeadlineSeconds :: "int \<Rightarrow> int option" where
  "GetActiveDeadlineSeconds d = (if 0 < d then Some d else None)"

text \<open>
  \<open>prepareKubeBenchJob\<close> reads the scanner's options and draws a name from
  \<open>uuid.New()\<close>. The drawn string is the parameter \<open>uuid\<close>. The constant
  \<open>kube.NamespaceStarboard\<close> is declared in another package and is the parameter
  \<open>NamespaceStarboard\<close>.
\<close>

definition hostPathVolume :: "string \<Rightarrow> string \<Rightarrow> Volume" where
  "hostPathVolume n p = \<lparr>vol_Name = n, vol_HostPath = Some \<lparr>hp_Path = p\<rparr>\<rparr>"

definition prepareKubeBenchJob ::
  "string \<Rightarrow> ('c, 'l, 'r, 'n) Scanner \<Rightarrow> string \<Rightarrow> Job" where
  "prepareKubeBenchJob NamespaceStarboard s uuid =
    \<lparr>job_Name = uuid,
     job_Namespace = NamespaceStarboard,
     job_Labels = [''app'' \<mapsto> ''kube-bench''],
     job_Spec =
      \<lparr>js_BackoffLimit = Some 0,
       js_Completions = Some 1,
       js_ActiveDeadlineSeconds = GetActiveDeadlineSeconds (ScanJobTimeout (opts s)),
       js_Template =
        \<lparr>pt_Labels = [''app'' \<mapsto> ''kube-bench''],
         pt_Spec =
          \<lparr>ps_RestartPolicy = RestartPolicyNever,
           ps_HostPID = True,
           ps_Volumes =
            [hostPathVolume ''var-lib-etcd'' ''/var/lib/etcd'',
             hostPathVolume ''var-lib-kubelet'' ''/var/lib/kubelet'',
             hostPathVolume ''etc-systemd'' ''/etc/systemd'',
             hostPathVolume ''etc-kubernetes'' ''/etc/kubernetes'',
             hostPathVolume ''usr-bin'' ''/usr/bin''],
           ps_Containers =
            [\<lparr>c_Name = kubeBenchContainerName,
              c_Image = kubeBenchContainerImage,
              c_ImagePullPolicy = PullAlways,
              c_TerminationMessagePolicy = TerminationMessageFallbackToLogsOnError,
              c_Command = [''kube-bench''],
              c_Args = [''--json''],
              c_VolumeMounts =
               [\<lparr>vm_Name = ''var-lib-etcd'', vm_MountPath = ''/var/lib/etcd'',
                 vm_ReadOnly = True\<rparr>,
                \<lparr>vm_Name = ''var-lib-kubelet'', vm_MountPath = ''/var/lib/kubelet'',
                 vm_ReadOnly = True\<rparr>,
                \<lparr>vm_Name = ''etc-systemd'', vm_MountPath = ''/etc/systemd'',
                 vm_ReadOnly = True\<rparr>,
                \<lparr>vm_Name = ''etc-kubernetes'', vm_MountPath = ''/etc/kubernetes'',
                 vm_ReadOnly = True\<rparr>,
                \<lparr>vm_Name = ''usr-bin'', vm_MountPath = ''/usr/local/mount-from-host/bin'',
                 vm_ReadOnly = True\<rparr>]\<rparr>]\<rparr>\<rparr>\<rparr>\<rparr>"

text \<open>
  What a mount of a container mounts: Kubernetes resolves the mount's name among the
  volumes of the pod. \<open>hostMounts\<close> lists, for every mount of every container, the
  host path of the volume it names (if there is such a host-path volume), the path
  inside the container and the read-only flag.
\<close>

fun hostPathOf :: "Volume list \<Rightarrow> string \<Rightarrow> string option" where
  "hostPathOf [] n = None"
| "hostPathOf (v # vs) n =
    (if vol_Name v = n then map_option hp_Path (vol_HostPath v) else hostPathOf vs n)"

definition hostMounts :: "PodSpec \<Rightarrow> (string option \<times> string \<times> bool) list" where
  "hostMounts ps =
    concat (map (\<lambda>c. map (\<lambda>m. (hostPathOf (ps_Volumes ps) (vm_Name m),
                                  vm_MountPath m, vm_ReadOnly m))
                          (c_VolumeMounts c))
                (ps_Containers ps))"

subsection \<open>Scan\<close>

text \<open>
  \<open>Scan\<close> has the named results \<open>(report, node, err)\<close>; a bare \<open>return\<close> returns
  their current values, which are the zero values until they are assigned. The zero
  value of the report type \<open>starboard.CISKubeBenchOutput\<close>, declared in another
  package, is the parameter \<open>zero\<close>; the nil node is \<open>None\<close>.

  \<open>runner.New().Run(ctx, kube.NewRunnableJob(s.clientset, job))\<close> submits the job and
  blocks until it has completed, has failed, or the wait was given up; the function
  value \<open>Run\<close> gives the error it returned.

  A \<open>defer\<close> statement registers a function that runs when \<open>Scan\<close> returns, after
  the results are set; the functions registered run last-registered first.
  \<open>deferred f body\<close> is a body with \<open>f\<close> registered before it: \<open>f\<close> runs on the
  calls made by the body, once the body has returned. Neither deferred function of
  \<open>Scan\<close> touches the results.
\<close>

definition deferred ::
  "(('c, 'l) call list \<Rightarrow> ('c, 'l) call list) \<Rightarrow> 'a \<times> ('c, 'l) call list
    \<Rightarrow> 'a \<times> ('c, 'l) call list" where
  "deferred f body = (fst body, f (snd body))"

definition deleteJob :: "'c \<Rightarrow> Job \<Rightarrow> ('c, 'l) call list \<Rightarrow> ('c, 'l) call list" where
  "deleteJob ctx kubeBenchJob tr =
    tr @ [JobsDelete ctx (job_Namespace kubeBenchJob) (job_Name kubeBenchJob)
            DeletePropagationBackground]"

definition closeLogs :: "'l \<Rightarrow> ('c, 'l) call list \<Rightarrow> ('c, 'l) call list" where
  "closeLogs logsReader tr = tr @ [CloseLogs logsReader]"

definition Scan ::
  "string \<Rightarrow> ('c \<Rightarrow> Job \<Rightarrow> error option) \<Rightarrow> 'r \<Rightarrow> ('c, 'l, 'r, 'n) Scanner \<Rightarrow> 'c \<Rightarrow> string
    \<Rightarrow> ('r \<times> 'n option \<times> error option) \<times> ('c, 'l) call list" where
  "Scan NamespaceStarboard Run zero s ctx uuid =
    (let kubeBenchJob = prepareKubeBenchJob NamespaceStarboard s uuid;
         t1 = [RunJob ctx kubeBenchJob]
     in case Run ctx kubeBenchJob of
          Some err \<Rightarrow> ((zero, None, Some (Errorf ''running kube-bench job: %w'' err)), t1)
        | None \<Rightarrow>
            deferred (deleteJob ctx kubeBenchJob)
             (let t2 = t1 @ [PodByJob ctx kubeBenchJob]
              in case GetPodByJob (pods s) ctx kubeBenchJob of
                   Inl err \<Rightarrow>
                     ((zero, None, Some (Errorf ''getting kube-bench pod: %w'' err)), t2)
                 | Inr kubeBenchPod \<Rightarrow>
                     (let t3 = t2 @ [PodLogs ctx kubeBenchPod kubeBenchContainerName]
                      in case GetPodLogs (pods s) ctx kubeBenchPod kubeBenchContainerName of
                           Inl err \<Rightarrow> ((zero, None, Some (Errorf ''getting logs: %w'' err)), t3)
                         | Inr logsReader \<Rightarrow>
                             deferred (closeLogs logsReader)
                              (let t4 = t3 @ [Convert logsReader]
                               in case converter s logsReader of
                                    (report, Some err) \<Rightarrow>
                                      ((report, None,
                                        Some (Errorf ''parsing CIS benchmark report: %w'' err)),
                                       t4)
                                  | (report, None) \<Rightarrow>
                                      (let t5 = t4 @ [NodesGet ctx (pod_NodeName kubeBenchPod)]
                                       in case Nodes_Get (clientset s) ctx
                                                 (pod_NodeName kubeBenchPod) of
                                            (node, err) \<Rightarrow> ((report, node, err), t5))))))"

subsection \<open>A concrete cluster\<close>

text \<open>
  A scanner with a timeout of 30 seconds on a cluster where every step succeeds, and
  the ways each step can fail on it. The context is \<open>()\<close>, a log stream is the text
  it carries, a report is the number of tests in it and a node is its name.
\<close>

definition okRun :: "unit \<Rightarrow> Job \<Rightarrow> error option" where
  "okRun ctx j = None"

definition failedRun :: "unit \<Rightarrow> Job \<Rightarrow> error option" where
  "failedRun ctx j = Some (Err ''job failed: BackoffLimitExceeded'')"

definition okPod :: "unit \<Rightarrow> Job \<Rightarrow> error + Pod" where
  "okPod ctx j = Inr \<lparr>pod_Name = ''kube-bench-x7k2p'', pod_NodeName = ''node-1''\<rparr>"

definition noPod :: "unit \<Rightarrow> Job \<Rightarrow> error + Pod" where
  "noPod ctx j = Inl (Err ''pod not found'')"

definition okLogs :: "unit \<Rightarrow> Pod \<Rightarrow> string \<Rightarrow> error + string" where
  "okLogs ctx p c = Inr ''{}''"

definition okConvert :: "string \<Rightarrow> nat \<times> error option" where
  "okConvert l = (1, None)"

definition badConvert :: "string \<Rightarrow> nat \<times> error option" where
  "badConvert l = (0, Some (Err ''unexpected end of JSON input''))"

definition okNode :: "unit \<Rightarrow> string \<Rightarrow> string option \<times> error option" where
  "okNode ctx n = (Some n, None)"

definition goneNode :: "unit \<Rightarrow> string \<Rightarrow> string option \<times> error option" where
  "goneNode ctx n = (None, Some (Err ''nodes not found''))"

definition okScanner :: "(unit, string, nat, string) Scanner" where
  "okScanner =
    \<lparr>opts = \<lparr>ScanJobTimeout = 30\<rparr>,
     clientset = \<lparr>Nodes_Get = okNode\<rparr>,
     pods = \<lparr>GetPodByJob = okPod, GetPodLogs = okLogs\<rparr>,
     converter = okConvert\<rparr>"

definition noPodScanner :: "(unit, string, nat, string) Scanner" where
  "noPodScanner = okScanner\<lparr>pods := \<lparr>GetPodByJob = noPod, GetPodLogs = okLogs\<rparr>\<rparr>"

definition badReportScanner :: "(unit, string, nat, string) Scanner" where
  "badReportScanner = okScanner\<lparr>converter := badConvert\<rparr>"

definition goneNodeScanner :: "(unit, string, nat, string) Scanner" where
  "goneNodeScanner = okScanner\<lparr>clientset := \<lparr>Nodes_Get = goneNode\<rparr>\<rparr>"

definition unboundedScanner :: "(unit, string, nat, string) Scanner" where
  "unboundedScanner = okScanner\<lparr>opts := \<lparr>ScanJobTimeout = 0\<rparr>\<rparr>"

section \<open>Properties\<close>

lemmas Scan_unfold = Scan_def deferred_def deleteJob_def closeLogs_def Let_def

lemmas cluster_unfold =
  okRun_def failedRun_def okPod_def noPod_def okLogs_def okConvert_def badConvert_def
  okNode_def goneNode_def okScanner_def noPodScanner_def badReportScanner_def
  goneNodeScanner_def unboundedScanner_def

subsection \<open>General facts\<close>

lemma prepareKubeBenchJob_identity:
  "job_Name (prepareKubeBenchJob ns s uuid) = uuid"
  "job_Namespace (prepareKubeBenchJob ns s uuid) = ns"
  by (simp_all add: prepareKubeBenchJob_def)

text \<open>Two descriptors carry the same name exactly when the same string was drawn.\<close>

lemma prepareKubeBenchJob_name_eq_iff:
  "job_Name (prepareKubeBenchJob ns s u) = job_Name (prepareKubeBenchJob ns' s' u') \<longleftrightarrow> u = u'"
  by (simp add: prepareKubeBenchJob_identity)

text \<open>The first call of \<open>Scan\<close> is the run of the job it has just built.\<close>

lemma Scan_calls_begin_with_run:
  "\<exists>rest. snd (Scan ns Run zero s ctx uuid) = RunJob ctx (prepareKubeBenchJob ns s uuid) # rest"
  by (simp add: Scan_unfold split: sum.split option.split prod.split)

text \<open>When the run returns an error, the run is the only call and the error is wrapped.\<close>

lemma Scan_run_error:
  assumes "Run ctx (prepareKubeBenchJob ns s uuid) = Some e"
  shows "Scan ns Run zero s ctx uuid =
          ((zero, None, Some (Errorf ''running kube-bench job: %w'' e)),
           [RunJob ctx (prepareKubeBenchJob ns s uuid)])"
  using assms by (simp add: Scan_unfold)

text \<open>The errors of opening the log stream and of decoding are wrapped as well.\<close>

lemma Scan_logs_error:
  assumes "Run ctx (prepareKubeBenchJob ns s uuid) = None"
      and "GetPodByJob (pods s) ctx (prepareKubeBenchJob ns s uuid) = Inr p"
      and "GetPodLogs (pods s) ctx p kubeBenchContainerName = Inl e"
  shows "fst (Scan ns Run zero s ctx uuid) = (zero, None, Some (Errorf ''getting logs: %w'' e))"
  using assms by (simp add: Scan_unfold)

lemma Scan_convert_error:
  assumes "Run ctx (prepareKubeBenchJob ns s uuid) = None"
      and "GetPodByJob (pods s) ctx (prepareKubeBenchJob ns s uuid) = Inr p"
      and "GetPodLogs (pods s) ctx p kubeBenchContainerName = Inr l"
      and "converter s l = (r, Some e)"
  shows "fst (Scan ns Run zero s ctx uuid) =
          (r, None, Some (Errorf ''parsing CIS benchmark report: %w'' e))"
  using assms by (simp add: Scan_unfold)

subsection \<open>Cleanup of the job\<close>

text \<open>
  C1, as stated, fails: the delete is registered only once the run has returned
  without an error. On the concrete cluster, with a job that was submitted and whose
  run the coordinator reports as failed, \<open>Scan\<close> issues no delete at all.
\<close>

theorem Scan_failed_run_issues_no_delete:
  "filter is_JobsDelete (snd (Scan ''starboard'' failedRun 0 okScanner () ''u1'')) = []"
  by (simp add: Scan_unfold cluster_unfold)

text \<open>
  C1, amended: for every invocation of \<open>Scan\<close> in which the run coordinator returned
  without an error, exactly one delete call, for the namespace and name of the
  submitted job and with background propagation, is issued before \<open>Scan\<close> returns,
  whatever happens afterwards (success, locator error, stream-open error, decoding
  error, node-lookup error, or a cancellation that makes one of these calls fail); it
  is the last call \<open>Scan\<close> makes.
\<close>

theorem Scan_deletes_job_once_after_run:
  assumes "Run ctx (prepareKubeBenchJob ns s uuid) = None"
  shows "filter is_JobsDelete (snd (Scan ns Run zero s ctx uuid)) =
           [JobsDelete ctx ns uuid DeletePropagationBackground]
       \<and> last (snd (Scan ns Run zero s ctx uuid)) =
           JobsDelete ctx ns uuid DeletePropagationBackground"
  using assms
  by (simp add: Scan_unfold prepareKubeBenchJob_identity
           split: sum.split option.split prod.split)

theorem Scan_deletes_job_once_after_run_witness:
  "okRun () (prepareKubeBenchJob ''starboard'' badReportScanner ''u1'') = None
   \<and> filter is_JobsDelete (snd (Scan ''starboard'' okRun 0 badReportScanner () ''u1'')) =
       [JobsDelete () ''starboard'' ''u1'' DeletePropagationBackground]
   \<and> last (snd (Scan ''starboard'' okRun 0 badReportScanner () ''u1'')) =
       JobsDelete () ''starboard'' ''u1'' DeletePropagationBackground"
  using Scan_deletes_job_once_after_run
          [of okRun "()" "''starboard''" badReportScanner "''u1''" 0]
  by (simp add: okRun_def)

subsection \<open>The descriptor\<close>

text \<open>
  C2: for every configured timeout \<open>T \<ge> 0\<close>, the descriptor built by
  \<open>prepareKubeBenchJob\<close> has its active-deadline-seconds field equal to \<open>T\<close> when
  \<open>T > 0\<close>, and unset when \<open>T = 0\<close>.
\<close>

theorem prepareKubeBenchJob_deadline:
  assumes "0 \<le> ScanJobTimeout (opts s)"
  shows "js_ActiveDeadlineSeconds (job_Spec (prepareKubeBenchJob ns s uuid)) =
           (if 0 < ScanJobTimeout (opts s) then Some (ScanJobTimeout (opts s)) else None)"
  by (simp add: prepareKubeBenchJob_def GetActiveDeadlineSeconds_def)

theorem prepareKubeBenchJob_deadline_witness:
  "0 \<le> ScanJobTimeout (opts okScanner)
   \<and> js_ActiveDeadlineSeconds (job_Spec (prepareKubeBenchJob ''starboard'' okScanner ''u1''))
       = Some 30
   \<and> 0 \<le> ScanJobTimeout (opts unboundedScanner)
   \<and> js_ActiveDeadlineSeconds
        (job_Spec (prepareKubeBenchJob ''starboard'' unboundedScanner ''u2'')) = None"
  using prepareKubeBenchJob_deadline [of okScanner "''starboard''" "''u1''"]
        prepareKubeBenchJob_deadline [of unboundedScanner "''starboard''" "''u2''"]
  by (simp add: okScanner_def unboundedScanner_def)

text \<open>
  C3: every descriptor built by \<open>prepareKubeBenchJob\<close>, whatever the configuration,
  has completions 1, backoff limit 0 and a pod template whose restart policy is
  Never.
\<close>

theorem prepareKubeBenchJob_runs_once:
  "js_Completions (job_Spec (prepareKubeBenchJob ns s uuid)) = Some 1
   \<and> js_BackoffLimit (job_Spec (prepareKubeBenchJob ns s uuid)) = Some 0
   \<and> ps_RestartPolicy (pt_Spec (js_Template (job_Spec (prepareKubeBenchJob ns s uuid))))
       = RestartPolicyNever"
  by (simp add: prepareKubeBenchJob_def)

text \<open>
  C4: every descriptor built by \<open>prepareKubeBenchJob\<close> declares host-PID access and
  mounts, read-only, the host's etcd data directory, kubelet state directory, systemd
  unit directory, kubernetes config directory and binary directory; the host binary
  directory \<open>/usr/bin\<close> is mounted at a container path other than \<open>/usr/bin\<close>, and
  every mount of every container has its read-only flag set.
\<close>

theorem prepareKubeBenchJob_host_mounts:
  "ps_HostPID (pt_Spec (js_Template (job_Spec (prepareKubeBenchJob ns s uuid))))
   \<and> hostMounts (pt_Spec (js_Template (job_Spec (prepareKubeBenchJob ns s uuid)))) =
       [(Some ''/var/lib/etcd'', ''/var/lib/etcd'', True),
        (Some ''/var/lib/kubelet'', ''/var/lib/kubelet'', True),
        (Some ''/etc/systemd'', ''/etc/systemd'', True),
        (Some ''/etc/kubernetes'', ''/etc/kubernetes'', True),
        (Some ''/usr/bin'', ''/usr/local/mount-from-host/bin'', True)]
   \<and> ''/usr/bin'' \<notin>
       set (map (fst \<circ> snd)
             (filter (\<lambda>m. fst m = Some ''/usr/bin'')
               (hostMounts (pt_Spec (js_Template (job_Spec (prepareKubeBenchJob ns s uuid)))))))
   \<and> list_all vm_ReadOnly
       (concat (map c_VolumeMounts
         (ps_Containers (pt_Spec (js_Template (job_Spec (prepareKubeBenchJob ns s uuid)))))))"
  by (simp add: prepareKubeBenchJob_def hostMounts_def hostPathVolume_def)

subsection \<open>Errors returned by Scan\<close>

text \<open>
  C6 says that an error of any of the five stages reaches the caller wrapped with the
  name of the stage. The errors of the run, of the pod lookup, of opening the logs and
  of decoding are wrapped (\<open>Scan_run_error\<close>, \<open>Scan_logs_error\<close>,
  \<open>Scan_convert_error\<close> and the pod lookup below); the error of the node lookup is
  not. On the concrete cluster whose node is gone after a successful decode, \<open>Scan\<close>
  returns the error of \<open>Nodes().Get\<close> as it is.
\<close>

theorem Scan_node_error_not_wrapped:
  "snd (snd (fst (Scan ''starboard'' okRun 0 goneNodeScanner () ''u1''))) =
     Some (Err ''nodes not found'')"
  by (simp add: Scan_unfold cluster_unfold)

text \<open>
  C7: if the pod lookup for the submitted job fails, \<open>Scan\<close> returns that error
  wrapped as \<open>getting kube-bench pod\<close>, with the zero report and no node, and the
  converter is never called.
\<close>

theorem Scan_pod_lookup_error:
  assumes "Run ctx (prepareKubeBenchJob ns s uuid) = None"
      and "GetPodByJob (pods s) ctx (prepareKubeBenchJob ns s uuid) = Inl e"
  shows "fst (Scan ns Run zero s ctx uuid) =
           (zero, None, Some (Errorf ''getting kube-bench pod: %w'' e))
       \<and> filter is_Convert (snd (Scan ns Run zero s ctx uuid)) = []"
  using assms by (simp add: Scan_unfold)

theorem Scan_pod_lookup_error_witness:
  "okRun () (prepareKubeBenchJob ''starboard'' noPodScanner ''u1'') = None
   \<and> GetPodByJob (pods noPodScanner) () (prepareKubeBenchJob ''starboard'' noPodScanner ''u1'')
       = Inl (Err ''pod not found'')
   \<and> fst (Scan ''starboard'' okRun 0 noPodScanner () ''u1'') =
       (0, None, Some (Errorf ''getting kube-bench pod: %w'' (Err ''pod not found'')))
   \<and> filter is_Convert (snd (Scan ''starboard'' okRun 0 noPodScanner () ''u1'')) = []"
  using Scan_pod_lookup_error
          [of okRun "()" "''starboard''" noPodScanner "''u1''" "Err ''pod not found''" 0]
  by (simp add: okRun_def noPodScanner_def noPod_def)

text \<open>
  C10: if decoding succeeds and the node lookup then fails, \<open>Scan\<close> returns the
  decoded report (not the zero report) together with whatever node value the lookup
  returned and the lookup's error, which is not nil.
\<close>

theorem Scan_node_error_keeps_report:
  assumes "Run ctx (prepareKubeBenchJob ns s uuid) = None"
      and "GetPodByJob (pods s) ctx (prepareKubeBenchJob ns s uuid) = Inr p"
      and "GetPodLogs (pods s) ctx p kubeBenchContainerName = Inr l"
      and "converter s l = (r, None)"
      and "Nodes_Get (clientset s) ctx (pod_NodeName p) = (n, Some e)"
  shows "fst (Scan ns Run zero s ctx uuid) = (r, n, Some e)"
  using assms by (simp add: Scan_unfold)

theorem Scan_node_error_keeps_report_witness:
  "okRun () (prepareKubeBenchJob ''starboard'' goneNodeScanner ''u1'') = None
   \<and> GetPodByJob (pods goneNodeScanner) ()
        (prepareKubeBenchJob ''starboard'' goneNodeScanner ''u1'')
       = Inr \<lparr>pod_Name = ''kube-bench-x7k2p'', pod_NodeName = ''node-1''\<rparr>
   \<and> GetPodLogs (pods goneNodeScanner) ()
        \<lparr>pod_Name = ''kube-bench-x7k2p'', pod_NodeName = ''node-1''\<rparr> kubeBenchContainerName
       = Inr ''{}''
   \<and> converter goneNodeScanner ''{}'' = (1, None)
   \<and> Nodes_Get (clientset goneNodeScanner) () ''node-1'' = (None, Some (Err ''nodes not found''))
   \<and> fst (Scan ''starboard'' okRun 0 goneNodeScanner () ''u1'') =
       (1, None, Some (Err ''nodes not found''))"
  using Scan_node_error_keeps_report
          [of okRun "()" "''starboard''" goneNodeScanner "''u1''"
              "\<lparr>pod_Name = ''kube-bench-x7k2p'', pod_NodeName = ''node-1''\<rparr>" "''{}''"
              1 None "Err ''nodes not found''" 0]
  by (simp add: okRun_def goneNodeScanner_def okScanner_def okPod_def okLogs_def
        okConvert_def goneNode_def)

subsection \<open>Order of the calls\<close>

text \<open>
  C8: in every execution of \<open>Scan\<close>, a delete of the job is issued only after the run
  coordinator has returned: wherever a delete stands among the calls, the call of the
  run stands before it, and the run returned without an error.
\<close>

theorem Scan_delete_after_run:
  assumes "i < length (snd (Scan ns Run zero s ctx uuid))"
      and "is_JobsDelete (snd (Scan ns Run zero s ctx uuid) ! i)"
  shows "0 < i
       \<and> snd (Scan ns Run zero s ctx uuid) ! 0 = RunJob ctx (prepareKubeBenchJob ns s uuid)
       \<and> Run ctx (prepareKubeBenchJob ns s uuid) = None"
proof -
  let ?job = "prepareKubeBenchJob ns s uuid"
  let ?tr = "snd (Scan ns Run zero s ctx uuid)"
  obtain rest where tr: "?tr = RunJob ctx ?job # rest"
    using Scan_calls_begin_with_run [of ns Run zero s ctx uuid] by blast
  have "i \<noteq> 0"
    using assms(2) tr by (cases i) auto
  moreover have "Run ctx ?job = None"
  proof (cases "Run ctx ?job")
    case None
    then show ?thesis .
  next
    case (Some e)
    then have "?tr = [RunJob ctx ?job]"
      by (simp add: Scan_run_error)
    with assms show ?thesis by simp
  qed
  ultimately show ?thesis
    using tr by simp
qed

theorem Scan_delete_after_run_witness:
  "6 < length (snd (Scan ''starboard'' okRun 0 okScanner () ''u1''))
   \<and> is_JobsDelete (snd (Scan ''starboard'' okRun 0 okScanner () ''u1'') ! 6)
   \<and> (0::nat) < 6
   \<and> snd (Scan ''starboard'' okRun 0 okScanner () ''u1'') ! 0 =
       RunJob () (prepareKubeBenchJob ''starboard'' okScanner ''u1'')
   \<and> okRun () (prepareKubeBenchJob ''starboard'' okScanner ''u1'') = None"
proof -
  have tr: "snd (Scan ''starboard'' okRun 0 okScanner () ''u1'') =
     [RunJob () (prepareKubeBenchJob ''starboard'' okScanner ''u1''),
      PodByJob () (prepareKubeBenchJob ''starboard'' okScanner ''u1''),
      PodLogs () \<lparr>pod_Name = ''kube-bench-x7k2p'', pod_NodeName = ''node-1''\<rparr> ''kube-bench'',
      Convert ''{}'', NodesGet () ''node-1'', CloseLogs ''{}'',
      JobsDelete () ''starboard'' ''u1'' DeletePropagationBackground]"
    by (simp add: Scan_unfold cluster_unfold kubeBenchContainerName_def
          prepareKubeBenchJob_identity)
  have h1: "6 < length (snd (Scan ''starboard'' okRun 0 okScanner () ''u1''))"
    by (simp add: tr)
  have h2: "is_JobsDelete (snd (Scan ''starboard'' okRun 0 okScanner () ''u1'') ! 6)"
    by (simp add: tr)
  show ?thesis
    using Scan_delete_after_run [OF h1 h2] h1 h2 by simp
qed

text \<open>
  C9: whenever the log stream has been opened inside \<open>Scan\<close>, it is closed exactly
  once before \<open>Scan\<close> returns, whatever the decoding and the node lookup do: the
  close follows the opening and every later call but the delete of the job.
\<close>

theorem Scan_closes_logs:
  assumes "Run ctx (prepareKubeBenchJob ns s uuid) = None"
      and "GetPodByJob (pods s) ctx (prepareKubeBenchJob ns s uuid) = Inr p"
      and "GetPodLogs (pods s) ctx p kubeBenchContainerName = Inr l"
  shows "filter is_CloseLogs (snd (Scan ns Run zero s ctx uuid)) = [CloseLogs l]
       \<and> (\<exists>pre. snd (Scan ns Run zero s ctx uuid) =
                  pre @ [CloseLogs l, JobsDelete ctx ns uuid DeletePropagationBackground]
                \<and> PodLogs ctx p kubeBenchContainerName \<in> set pre)"
  using assms
  by (simp add: Scan_unfold prepareKubeBenchJob_identity split: option.split prod.split)

theorem Scan_closes_logs_witness:
  "okRun () (prepareKubeBenchJob ''starboard'' badReportScanner ''u1'') = None
   \<and> GetPodByJob (pods badReportScanner) ()
        (prepareKubeBenchJob ''starboard'' badReportScanner ''u1'')
       = Inr \<lparr>pod_Name = ''kube-bench-x7k2p'', pod_NodeName = ''node-1''\<rparr>
   \<and> GetPodLogs (pods badReportScanner) ()
        \<lparr>pod_Name = ''kube-bench-x7k2p'', pod_NodeName = ''node-1''\<rparr> kubeBenchContainerName
       = Inr ''{}''
   \<and> filter is_CloseLogs (snd (Scan ''starboard'' okRun 0 badReportScanner () ''u1'')) =
       [CloseLogs ''{}'']
   \<and> (\<exists>pre. snd (Scan ''starboard'' okRun 0 badReportScanner () ''u1'') =
              pre @ [CloseLogs ''{}'',
                     JobsDelete () ''starboard'' ''u1'' DeletePropagationBackground]
            \<and> PodLogs () \<lparr>pod_Name = ''kube-bench-x7k2p'', pod_NodeName = ''node-1''\<rparr>
                 kubeBenchContainerName \<in> set pre)"
  using Scan_closes_logs
          [of okRun "()" "''starboard''" badReportScanner "''u1''"
              "\<lparr>pod_Name = ''kube-bench-x7k2p'', pod_NodeName = ''node-1''\<rparr>" "''{}''" 0]
  by (simp add: okRun_def badReportScanner_def okScanner_def okPod_def okLogs_def)

end
